theory Spec2Isabelle
  imports Main "HOL-Library.Word"
begin

section \<open>The access gateway: contracts/zkdap/ZKDataAccess.sol\<close>

text \<open>
  Solidity's \<open>uint256\<close> is a 256-bit word, an \<open>address\<close> a 160-bit word, \<open>bytes\<close> a list
  of octets and \<open>string\<close> a character list. A \<open>mapping\<close> is total: a key that was never
  written reads as the zero value of the value type (\<open>0\<close>, the empty string).
\<close>

type_synonym uint256 = "256 word"
type_synonym address = "160 word"
type_synonym bytes = "8 word list"

text \<open>A failing \<open>require(cond, msg)\<close> reverts the call with \<open>msg\<close>.\<close>

datatype error = Revert string

datatype event =
    ResourceRegistered uint256 uint256
  | AccessVerified uint256 bool

record ZKDataAccess =
  verifierContract :: address
  resourcePermissions :: "uint256 \<Rightarrow> uint256"
  resourceData :: "uint256 \<Rightarrow> string"

definition constructor :: "address \<Rightarrow> ZKDataAccess" where
  "constructor verifierContract' =
     \<lparr>verifierContract = verifierContract',
      resourcePermissions = (\<lambda>_. 0),
      resourceData = (\<lambda>_. '''')\<rparr>"

text \<open>\<open>registerResource\<close> has no guard: it writes both mappings and emits the event.\<close>

definition registerResource ::
  "ZKDataAccess \<Rightarrow> uint256 \<Rightarrow> uint256 \<Rightarrow> string \<Rightarrow> ZKDataAccess \<times> event list" where
  "registerResource c resourceId requiredPermission data =
     (c\<lparr>resourcePermissions := (resourcePermissions c)(resourceId := requiredPermission),
        resourceData := (resourceData c)(resourceId := data)\<rparr>,
      [ResourceRegistered resourceId requiredPermission])"

text \<open>
  \<open>verifyAccess\<close> is a \<open>view\<close> function: it returns a value or reverts and leaves the
  state alone. The parameter \<open>uint256[2] memory publicSignals\<close> is a fixed array of exactly
  two words, modelled as a pair: \<open>fst\<close> is \<open>publicSignals[0]\<close>, \<open>snd\<close> is
  \<open>publicSignals[1]\<close>. The local \<open>verificationResult\<close> is the constant \<open>true\<close> of the
  source; the \<open>else\<close> branch is kept as written.
\<close>

definition verifyAccess ::
  "ZKDataAccess \<Rightarrow> uint256 \<Rightarrow> bytes \<Rightarrow> uint256 \<times> uint256 \<Rightarrow> error + bool \<times> string" where
  "verifyAccess c resourceId prf publicSignals =
     (if \<not> 0 < resourcePermissions c resourceId then Inl (Revert ''Resource not registered'')
      else if \<not> fst publicSignals = resourcePermissions c resourceId
        then Inl (Revert ''Invalid required permission'')
      else if \<not> snd publicSignals = resourceId then Inl (Revert ''Invalid resource ID'')
      else (let verificationResult = True in
            if verificationResult then Inr (True, resourceData c resourceId)
            else Inr (False, '''')))"

definition updateVerifier :: "ZKDataAccess \<Rightarrow> address \<Rightarrow> ZKDataAccess" where
  "updateVerifier c newVerifier' = c\<lparr>verifierContract := newVerifier'\<rparr>"

text \<open>
  The state-changing entry points of the contract as transactions, and a history of them
  run from a given state. A resource identifier is registered by a history when some
  \<open>RegisterResource\<close> transaction of the history names it.
\<close>

datatype call =
    RegisterResource uint256 uint256 string
  | UpdateVerifier address

fun exec_call :: "ZKDataAccess \<Rightarrow> call \<Rightarrow> ZKDataAccess" where
  "exec_call c (RegisterResource resourceId requiredPermission data) =
     fst (registerResource c resourceId requiredPermission data)"
| "exec_call c (UpdateVerifier newVerifier') = updateVerifier c newVerifier'"

definition run_calls :: "ZKDataAccess \<Rightarrow> call list \<Rightarrow> ZKDataAccess" where
  "run_calls c calls = foldl exec_call c calls"

fun registers :: "uint256 \<Rightarrow> call \<Rightarrow> bool" where
  "registers resourceId (RegisterResource r _ _) = (r = resourceId)"
| "registers resourceId (UpdateVerifier _) = False"

text \<open>
  scripts/deploy.js: the contract is deployed and the sample resource registered. The
  verifier's address is whatever the deployment returned; the sample uses the address
  printed in scripts/interact.js.
\<close>

definition deployed :: ZKDataAccess where
  "deployed =
     fst (registerResource (constructor 0x5FbDB2315678afecb367f032d93F642f64180aa3)
            67890 5 ''This is sensitive data requiring permission level 5'')"

section \<open>The client: scripts/interact.js\<close>

text \<open>
  The script reads the requirement of the resource from the contract and builds the
  public signals as the JavaScript array \<open>[requiredPermission, resourceId]\<close>.
\<close>

definition interact_publicSignals :: "ZKDataAccess \<Rightarrow> uint256 \<Rightarrow> uint256 list" where
  "interact_publicSignals c resourceId =
     (let requiredPermission = resourcePermissions c resourceId
      in [requiredPermission, resourceId])"

text \<open>
  An array handed to a parameter of type \<open>uint256[2]\<close>: the type holds exactly two
  words, so an array of any other length is no argument of \<open>verifyAccess\<close> at all.
\<close>

fun uint256_2 :: "uint256 list \<Rightarrow> (uint256 \<times> uint256) option" where
  "uint256_2 [a, b] = Some (a, b)"
| "uint256_2 _ = None"

text \<open>
  The layout of the public signals in the words of the specification: three positions,
  \<open>[requiredPermission, resourceId, accessGranted]\<close>.
\<close>

definition spec_PublicSignals :: "uint256 \<Rightarrow> uint256 \<Rightarrow> uint256 \<Rightarrow> uint256 list" where
  "spec_PublicSignals requiredPermission resourceId accessGranted =
     [requiredPermission, resourceId, accessGranted]"

section \<open>The constraint system: circuits/data_access.circom\<close>

text \<open>
  A circom signal is an element of the scalar field of the curve bn128: a natural number
  below the prime, with addition, subtraction and multiplication modulo the prime. A
  constraint \<open>===\<close> that does not hold, or a failing \<open>assert\<close>, stops witness generation.
\<close>

text \<open>
  Modelled from the spec: the value of the field prime is not in the repository's files.
  The specification speaks of the underlying field's canonical range;
  scripts/compile-circuit.js names the curve, \<open>bn128\<close>, and this is the order of its
  scalar field.
\<close>

definition bn128_prime :: nat where
  "bn128_prime =
     21888242871839275222246405745257275088548364400416034343698204186575808495617"

definition fadd :: "nat \<Rightarrow> nat \<Rightarrow> nat" where
  "fadd a b = (a + b) mod bn128_prime"

definition fsub :: "nat \<Rightarrow> nat \<Rightarrow> nat" where
  "fsub a b = (a + (bn128_prime - b mod bn128_prime)) mod bn128_prime"

definition fmul :: "nat \<Rightarrow> nat \<Rightarrow> nat" where
  "fmul a b = (a * b) mod bn128_prime"

datatype wtns_error = AssertFailed

text \<open>
  Modelled from the spec: the template \<open>GreaterEqThan\<close> that \<open>DataAccess\<close> instantiates
  is included from circomlib (\<open>circomlib/circuits/comparators.circom\<close>), which is not among
  the repository's files. The specification describes it as the gates encoding
  \<open>userPermission \<ge> requiredPermission\<close> by a bounded bit decomposition of fixed width,
  sound only when both compared values fit the width. The three definitions below are that
  comparator as circomlib builds it: \<open>Num2Bits n\<close> decomposes its input into \<open>n\<close> bits, each
  constrained to be a bit, and constrains their weighted sum to equal the input;
  \<open>LessThan n\<close> decomposes \<open>in[0] + 2^n - in[1]\<close> into \<open>n + 1\<close> bits and returns one minus the
  top bit; \<open>GreaterEqThan n\<close> is \<open>LessThan n\<close> on \<open>in[1]\<close> and \<open>in[0] + 1\<close>.
\<close>

definition Num2Bits :: "nat \<Rightarrow> nat \<Rightarrow> wtns_error + nat list" where
  "Num2Bits n inp =
     (let out = map (\<lambda>i. (inp div 2 ^ i) mod 2) [0..<n];
          lc1 = (\<Sum>i\<leftarrow>[0..<n]. out ! i * 2 ^ i) mod bn128_prime
      in if list_all (\<lambda>b. fmul b (fsub b 1) = 0) out \<and> lc1 = inp then Inr out
         else Inl AssertFailed)"

text \<open>
  Modelled from the spec: \<open>LessThan n\<close> of the same absent file, the comparison by the
  top bit of the \<open>n + 1\<close>-bit decomposition of \<open>in[0] + 2^n - in[1]\<close>, after its
  \<open>assert(n <= 252)\<close>.
\<close>

definition LessThan :: "nat \<Rightarrow> nat \<Rightarrow> nat \<Rightarrow> wtns_error + nat" where
  "LessThan n in0 in1 =
     (if \<not> n \<le> 252 then Inl AssertFailed
      else case Num2Bits (n + 1) (fsub (fadd in0 (2 ^ n)) in1) of
             Inl e \<Rightarrow> Inl e
           | Inr out \<Rightarrow> Inr (fsub 1 (out ! n)))"

text \<open>
  Modelled from the spec: \<open>GreaterEqThan n\<close> of the same absent file, the inclusive
  comparison \<open>in[0] \<ge> in[1]\<close> as \<open>in[1] < in[0] + 1\<close>.
\<close>

definition GreaterEqThan :: "nat \<Rightarrow> nat \<Rightarrow> nat \<Rightarrow> wtns_error + nat" where
  "GreaterEqThan n in0 in1 = LessThan n in1 (fadd in0 1)"

text \<open>
  The witness: the value of every signal of \<open>DataAccess\<close>. Witness generation reads each
  input as a field element, that is, reduced modulo the prime. The template then hands its
  two permission inputs to the comparator as they are and copies \<open>resourceId\<close>; it has no
  constraint of its own on the range of an input.
\<close>

record witness =
  w_userPermission :: nat
  w_requiredPermission :: nat
  w_resourceId :: nat
  w_accessGranted :: nat
  w_resourceIdCheck :: nat

definition DataAccess :: "nat \<Rightarrow> nat \<Rightarrow> nat \<Rightarrow> wtns_error + witness" where
  "DataAccess userPermission requiredPermission resourceId =
     (let userPermission = userPermission mod bn128_prime;
          requiredPermission = requiredPermission mod bn128_prime;
          resourceId = resourceId mod bn128_prime
      in case GreaterEqThan 32 userPermission requiredPermission of
           Inl e \<Rightarrow> Inl e
         | Inr out \<Rightarrow>
             Inr \<lparr>w_userPermission = userPermission,
                  w_requiredPermission = requiredPermission,
                  w_resourceId = resourceId,
                  w_accessGranted = out,
                  w_resourceIdCheck = resourceId\<rparr>)"

section \<open>Properties of the gateway\<close>

lemma run_calls_Nil: "run_calls c [] = c"
  by (simp add: run_calls_def)

lemma run_calls_Cons: "run_calls c (x # xs) = run_calls (exec_call c x) xs"
  by (simp add: run_calls_def)

lemma exec_call_other:
  "\<not> registers resourceId x \<Longrightarrow>
     resourcePermissions (exec_call c x) resourceId = resourcePermissions c resourceId"
  by (cases x) (auto simp: registerResource_def updateVerifier_def)

lemma run_calls_other:
  "\<forall>x \<in> set calls. \<not> registers resourceId x \<Longrightarrow>
     resourcePermissions (run_calls c calls) resourceId = resourcePermissions c resourceId"
proof (induction calls arbitrary: c)
  case Nil
  show ?case by (simp add: run_calls_Nil)
next
  case (Cons x xs)
  have "resourcePermissions (run_calls (exec_call c x) xs) resourceId
          = resourcePermissions (exec_call c x) resourceId"
    using Cons by simp
  also have "\<dots> = resourcePermissions c resourceId"
    using Cons.prems by (simp add: exec_call_other)
  finally show ?case by (simp add: run_calls_Cons)
qed

lemma verifyAccess_zero:
  "resourcePermissions c resourceId = 0 \<Longrightarrow>
     verifyAccess c resourceId prf publicSignals = Inl (Revert ''Resource not registered'')"
  by (simp add: verifyAccess_def)

lemma verifyAccess_deployed:
  "verifyAccess deployed 67890 prf (5, 67890) =
     Inr (True, ''This is sensitive data requiring permission level 5'')"
  by (simp add: verifyAccess_def deployed_def registerResource_def constructor_def)

section \<open>Properties of the comparator\<close>

lemma fadd_small: "a + b < bn128_prime \<Longrightarrow> fadd a b = a + b"
  by (simp add: fadd_def)

lemma fsub_small:
  assumes "b \<le> a" and "a < bn128_prime"
  shows "fsub a b = a - b"
proof -
  have b: "b mod bn128_prime = b" using assms by simp
  have "a + (bn128_prime - b) = (a - b) + bn128_prime" using assms by simp
  then have "(a + (bn128_prime - b)) mod bn128_prime = (a - b) mod bn128_prime"
    by simp
  also have "\<dots> = a - b" using assms by simp
  finally show ?thesis by (simp add: fsub_def b)
qed

lemma fsub_1_0: "fsub 1 0 = 1"
  by (simp add: fsub_def bn128_prime_def)

lemma fsub_1_1: "fsub 1 1 = 0"
  by (simp add: fsub_def bn128_prime_def)

lemma bit_constraint: "fmul (x mod 2) (fsub (x mod 2) 1) = 0"
proof (cases "x mod 2 = 0")
  case True
  then show ?thesis by (simp add: fmul_def)
next
  case False
  then have "x mod 2 = 1" by presburger
  then show ?thesis by (simp add: fmul_def fsub_def bn128_prime_def)
qed

text \<open>The weighted sum of the low \<open>n\<close> bits of \<open>x\<close> is \<open>x mod 2 ^ n\<close>.\<close>

lemma bits_sum:
  "(\<Sum>i\<leftarrow>[0..<n]. (x div 2 ^ i) mod 2 * 2 ^ i) = (x::nat) mod 2 ^ n"
proof (induction n)
  case 0
  show ?case by simp
next
  case (Suc n)
  have "x mod 2 ^ Suc n = x mod (2 ^ n * 2)" by (simp add: mult.commute)
  also have "\<dots> = 2 ^ n * (x div 2 ^ n mod 2) + x mod 2 ^ n"
    by (rule mod_mult2_eq)
  finally show ?case using Suc by simp
qed

lemma bits_nth_sum:
  "(\<Sum>i\<leftarrow>[0..<n]. map (\<lambda>i. (x div 2 ^ i) mod 2) [0..<n] ! i * 2 ^ i) = (x::nat) mod 2 ^ n"
proof -
  have "map (\<lambda>i. map (\<lambda>i. (x div 2 ^ i) mod 2) [0..<n] ! i * 2 ^ i) [0..<n]
          = map (\<lambda>i. (x div 2 ^ i) mod 2 * 2 ^ i) [0..<n]"
    by (rule map_cong) simp_all
  then show ?thesis by (simp only: bits_sum)
qed

text \<open>
  \<open>Num2Bits n\<close> succeeds exactly on the inputs below \<open>2 ^ n\<close>: the bit constraints always
  hold, and the sum constraint holds when no bit of the input is cut off.
\<close>

lemma Num2Bits_eq:
  assumes "2 ^ n \<le> bn128_prime"
  shows "Num2Bits n x =
           (if x < 2 ^ n then Inr (map (\<lambda>i. (x div 2 ^ i) mod 2) [0..<n]) else Inl AssertFailed)"
proof -
  have bits: "list_all (\<lambda>b. fmul b (fsub b 1) = 0) (map (\<lambda>i. (x div 2 ^ i) mod 2) [0..<n])"
    using bit_constraint by (simp add: list_all_iff)
  have "x mod 2 ^ n < bn128_prime"
    using assms by (meson less_le_trans mod_less_divisor zero_less_numeral zero_less_power)
  then have lc1: "(x mod 2 ^ n) mod bn128_prime = x mod 2 ^ n" by simp
  have "(x mod 2 ^ n = x) = (x < 2 ^ n)"
    by (metis mod_less mod_less_divisor zero_less_numeral zero_less_power)
  then show ?thesis
    unfolding Num2Bits_def Let_def bits_nth_sum lc1 using bits by simp
qed

lemma LessThan_32:
  "LessThan 32 a b =
     (if fsub (fadd a (2 ^ 32)) b < 2 ^ 33
      then Inr (fsub 1 ((fsub (fadd a (2 ^ 32)) b div 2 ^ 32) mod 2))
      else Inl AssertFailed)"
proof -
  have "(2::nat) ^ (32 + 1) \<le> bn128_prime" by (simp add: bn128_prime_def)
  then show ?thesis
    by (simp add: LessThan_def Num2Bits_eq del: upt_Suc)
qed

lemma top_bit_borrow:
  assumes "(k::nat) < 2 ^ 32"
  shows "(2 ^ 32 + k) div 2 ^ 32 mod 2 = 1"
proof -
  have "(2 ^ 32 + k) div 2 ^ 32 = k div 2 ^ 32 + 1"
    by (rule div_add_self1) simp
  then have "(2 ^ 32 + k) div 2 ^ 32 = 1" using assms by simp
  then show ?thesis by simp
qed

text \<open>On two values of the 32-bit domain the comparator is the inclusive comparison.\<close>

lemma GreaterEqThan_in_range:
  assumes "u < 2 ^ 32" and "r < 2 ^ 32"
  shows "GreaterEqThan 32 u r = Inr (if r \<le> u then 1 else 0)"
proof -
  have u1: "fadd u 1 = u + 1"
    using assms by (intro fadd_small) (simp add: bn128_prime_def)
  have r32: "fadd r (2 ^ 32) = r + 2 ^ 32"
    using assms by (intro fadd_small) (simp add: bn128_prime_def)
  have v: "fsub (r + 2 ^ 32) (u + 1) = r + 2 ^ 32 - (u + 1)"
    using assms by (intro fsub_small) (simp_all add: bn128_prime_def)
  have lt: "r + 2 ^ 32 - (u + 1) < 2 ^ 33" using assms by simp
  have red: "LessThan 32 r (fadd u 1) =
               Inr (fsub 1 ((r + 2 ^ 32 - (u + 1)) div 2 ^ 32 mod 2))"
    unfolding LessThan_32 u1 r32 v using lt by (simp only: if_True)
  show ?thesis
  proof (cases "r \<le> u")
    case True
    then have "r + 2 ^ 32 - (u + 1) < 2 ^ 32" using assms by simp
    then have "(r + 2 ^ 32 - (u + 1)) div 2 ^ 32 mod 2 = 0" by simp
    then show ?thesis
      unfolding GreaterEqThan_def red using True by (simp only: fsub_1_0 if_True)
  next
    case False
    define k where "k = r - (u + 1)"
    have eq: "r + 2 ^ 32 - (u + 1) = 2 ^ 32 + k" using False by (simp add: k_def)
    have "k < 2 ^ 32" using assms by (simp add: k_def)
    then have "(r + 2 ^ 32 - (u + 1)) div 2 ^ 32 mod 2 = 1"
      unfolding eq by (rule top_bit_borrow)
    then show ?thesis
      unfolding GreaterEqThan_def red using False by (simp only: fsub_1_1 if_False)
  qed
qed

lemma DataAccess_in_range:
  assumes "u < 2 ^ 32" and "r < 2 ^ 32"
  shows "DataAccess u r rid =
           Inr \<lparr>w_userPermission = u, w_requiredPermission = r,
                w_resourceId = rid mod bn128_prime,
                w_accessGranted = (if r \<le> u then 1 else 0),
                w_resourceIdCheck = rid mod bn128_prime\<rparr>"
proof -
  have u: "u mod bn128_prime = u"
    using assms(1) by (intro mod_less) (simp add: bn128_prime_def)
  have r: "r mod bn128_prime = r"
    using assms(2) by (intro mod_less) (simp add: bn128_prime_def)
  show ?thesis
    unfolding DataAccess_def Let_def u r by (simp add: GreaterEqThan_in_range [OF assms])
qed

lemma DataAccess_eq:
  "DataAccess u r rid =
     (if fsub (fadd (r mod bn128_prime) (2 ^ 32)) (fadd (u mod bn128_prime) 1) < 2 ^ 33
      then Inr \<lparr>w_userPermission = u mod bn128_prime,
                w_requiredPermission = r mod bn128_prime,
                w_resourceId = rid mod bn128_prime,
                w_accessGranted =
                  fsub 1 ((fsub (fadd (r mod bn128_prime) (2 ^ 32))
                             (fadd (u mod bn128_prime) 1) div 2 ^ 32) mod 2),
                w_resourceIdCheck = rid mod bn128_prime\<rparr>
      else Inl AssertFailed)"
  by (simp add: DataAccess_def Let_def GreaterEqThan_def LessThan_32)

text \<open>An identifier of 256 bits is recorded in the witness reduced modulo the prime.\<close>

lemma DataAccess_reduces_resourceId:
  "DataAccess 10 5 (2 ^ 256 - 1) =
     Inr \<lparr>w_userPermission = 10, w_requiredPermission = 5,
          w_resourceId =
            6350874878119819312338956282401532410528162663560392320966563075034087161850,
          w_accessGranted = 1,
          w_resourceIdCheck =
            6350874878119819312338956282401532410528162663560392320966563075034087161850\<rparr>"
proof -
  have "DataAccess 10 5 (2 ^ 256 - 1) =
     Inr \<lparr>w_userPermission = 10, w_requiredPermission = 5,
          w_resourceId = (2 ^ 256 - 1) mod bn128_prime,
          w_accessGranted = (if (5::nat) \<le> 10 then 1 else 0),
          w_resourceIdCheck = (2 ^ 256 - 1) mod bn128_prime\<rparr>"
    by (rule DataAccess_in_range) simp_all
  moreover have "(2 ^ 256 - 1 :: nat) mod bn128_prime =
      6350874878119819312338956282401532410528162663560392320966563075034087161850"
    by (simp add: bn128_prime_def)
  ultimately show ?thesis by simp
qed

section \<open>The claims\<close>

text \<open>
  C1. \<open>verifyAccess\<close> is claimed to grant access only when the verifier accepts the
  proof and the circuit's \<open>accessGranted\<close> signal is 1, so that a prover whose permission
  is below the threshold is denied. At the deployed sample resource (threshold 5) a prover
  with permission 3 gets a witness whose \<open>accessGranted\<close> is 0, and yet
  \<open>verifyAccess\<close>, called with an empty proof and the signals \<open>[5, 67890]\<close>, returns
  \<open>true\<close> with the stored data.
\<close>

theorem verifyAccess_grants_below_threshold:
  "DataAccess 3 5 67890 =
     Inr \<lparr>w_userPermission = 3, w_requiredPermission = 5, w_resourceId = 67890,
          w_accessGranted = 0, w_resourceIdCheck = 67890\<rparr> \<and>
   verifyAccess deployed 67890 [] (5, 67890) =
     Inr (True, ''This is sensitive data requiring permission level 5'')"
proof -
  have "DataAccess 3 5 67890 =
     Inr \<lparr>w_userPermission = 3, w_requiredPermission = 5,
          w_resourceId = 67890 mod bn128_prime,
          w_accessGranted = (if (5::nat) \<le> 3 then 1 else 0),
          w_resourceIdCheck = 67890 mod bn128_prime\<rparr>"
    by (rule DataAccess_in_range) simp_all
  moreover have "(67890::nat) mod bn128_prime = 67890"
    by (simp add: bn128_prime_def)
  ultimately show ?thesis by (simp add: verifyAccess_deployed)
qed

text \<open>
  C2. Public signals that name resource \<open>A\<close> never open a different resource \<open>B\<close>:
  whatever the state, the proof bytes and the requirement in the signals, \<open>verifyAccess\<close>
  called for \<open>B\<close> does not return; and when \<open>B\<close> is registered with exactly the requirement
  the signals carry, the call reverts with "Invalid resource ID", so the mismatch of the
  identifier alone blocks the access.
\<close>

theorem verifyAccess_rejects_other_resource:
  assumes "A \<noteq> B"
  shows "(\<forall>res. verifyAccess c B prf (r, A) \<noteq> Inr res) \<and>
         (0 < resourcePermissions c B \<and> resourcePermissions c B = r \<longrightarrow>
            verifyAccess c B prf (r, A) = Inl (Revert ''Invalid resource ID''))"
  using assms by (simp add: verifyAccess_def)

theorem verifyAccess_rejects_other_resource_witness:
  "(67890 :: uint256) \<noteq> 12345 \<and>
   resourcePermissions (fst (registerResource deployed 12345 5 ''other'')) 12345 = 5 \<and>
   verifyAccess (fst (registerResource deployed 12345 5 ''other'')) 12345 [] (5, 67890)
     = Inl (Revert ''Invalid resource ID'')"
proof -
  have ne: "(67890 :: uint256) \<noteq> 12345" by simp
  have reg: "resourcePermissions (fst (registerResource deployed 12345 5 ''other'')) 12345 = 5"
    by (simp add: registerResource_def)
  show ?thesis
    using verifyAccess_rejects_other_resource
      [OF ne, of "fst (registerResource deployed 12345 5 ''other'')" "[]" 5] ne reg
    by simp
qed

text \<open>
  C3, amended. The public signals that \<open>verifyAccess\<close> consumes have exactly two
  positions, ordered \<open>[requiredPermission, resourceId]\<close>, and no position for
  \<open>accessGranted\<close>: an array fits the parameter only when it has two elements, the client
  builds exactly that array, and the call returns exactly when the stored requirement of
  the resource is not zero, position 0 equals it and position 1 equals the requested
  identifier.
\<close>

theorem verifyAccess_consumes_two_signals:
  "(uint256_2 signals = Some v \<longleftrightarrow> signals = [fst v, snd v]) \<and>
   uint256_2 (interact_publicSignals c resourceId) = Some (resourcePermissions c resourceId, resourceId) \<and>
   (verifyAccess c resourceId prf v = Inr res \<longleftrightarrow>
      0 < resourcePermissions c resourceId \<and> fst v = resourcePermissions c resourceId \<and>
      snd v = resourceId \<and> res = (True, resourceData c resourceId))"
proof -
  have "uint256_2 signals = Some v \<longleftrightarrow> signals = [fst v, snd v]"
    by (cases "(signals)" rule: uint256_2.cases) auto
  moreover have "uint256_2 (interact_publicSignals c resourceId)
                   = Some (resourcePermissions c resourceId, resourceId)"
    by (simp add: interact_publicSignals_def)
  moreover have "verifyAccess c resourceId prf v = Inr res \<longleftrightarrow>
      0 < resourcePermissions c resourceId \<and> fst v = resourcePermissions c resourceId \<and>
      snd v = resourceId \<and> res = (True, resourceData c resourceId)"
    by (auto simp: verifyAccess_def)
  ultimately show ?thesis by blast
qed

theorem verifyAccess_consumes_two_signals_witness:
  "uint256_2 [5, 67890] = Some (5, 67890) \<and>
   uint256_2 (interact_publicSignals deployed 67890) = Some (5, 67890) \<and>
   verifyAccess deployed 67890 [] (5, 67890) =
     Inr (True, ''This is sensitive data requiring permission level 5'')"
  using verifyAccess_consumes_two_signals
    [of "[5, 67890]" "(5, 67890)" deployed 67890 "[]"
        "(True, ''This is sensitive data requiring permission level 5'')"]
  by (simp add: deployed_def registerResource_def constructor_def)

text \<open>
  C3 as stated fails: the array the client builds for the sample resource is
  \<open>[5, 67890]\<close>, not the three-position vector of the specification; the three-position
  vector does not fit the parameter, and the two-position one is accepted.
\<close>

theorem publicSignals_layout_counterexample:
  "interact_publicSignals deployed 67890 = [5, 67890] \<and>
   interact_publicSignals deployed 67890 \<noteq> spec_PublicSignals 5 67890 1 \<and>
   uint256_2 (spec_PublicSignals 5 67890 1) = None \<and>
   uint256_2 (interact_publicSignals deployed 67890) = Some (5, 67890) \<and>
   verifyAccess deployed 67890 [] (5, 67890) =
     Inr (True, ''This is sensitive data requiring permission level 5'')"
  by (simp add: interact_publicSignals_def spec_PublicSignals_def verifyAccess_deployed)
     (simp add: deployed_def registerResource_def constructor_def)

text \<open>
  C4, amended. A mismatch between the public signals and the resource is reported by
  reverting, never as a returned \<open>granted = false\<close>: for a resource whose stored
  requirement is not zero the call reverts with "Invalid required permission" when
  position 0 differs from the stored requirement, and otherwise with
  "Invalid resource ID" when position 1 differs from the requested identifier. Both
  messages differ from the "Resource not registered" of the existence check.
\<close>

theorem verifyAccess_mismatch_reverts:
  assumes "0 < resourcePermissions c resourceId"
    and "fst v \<noteq> resourcePermissions c resourceId \<or> snd v \<noteq> resourceId"
  shows "verifyAccess c resourceId prf v =
           Inl (Revert (if fst v \<noteq> resourcePermissions c resourceId
                        then ''Invalid required permission'' else ''Invalid resource ID'')) \<and>
         verifyAccess c resourceId prf v \<noteq> Inr (False, '''') \<and>
         verifyAccess c resourceId prf v \<noteq> Inl (Revert ''Resource not registered'')"
  using assms by (auto simp: verifyAccess_def)

theorem verifyAccess_mismatch_reverts_witness:
  "0 < resourcePermissions deployed 67890 \<and>
   verifyAccess deployed 67890 [] (5, 12345) = Inl (Revert ''Invalid resource ID'')"
proof -
  have reg: "0 < resourcePermissions deployed 67890"
    by (simp add: deployed_def registerResource_def)
  have mis: "fst (5 :: uint256, 12345 :: uint256) \<noteq> resourcePermissions deployed 67890
               \<or> snd (5 :: uint256, 12345 :: uint256) \<noteq> 67890"
    by simp
  show ?thesis
    using verifyAccess_mismatch_reverts [OF reg mis, of "[]"] reg
    by (simp add: deployed_def registerResource_def)
qed

text \<open>
  C4 as stated fails: at the sample resource a wrong requirement in position 0, and a
  wrong identifier in position 1, each end in a revert and not in the returned pair
  \<open>(false, "")\<close>.
\<close>

theorem verifyAccess_mismatch_counterexample:
  "verifyAccess deployed 67890 [] (4, 67890) = Inl (Revert ''Invalid required permission'') \<and>
   verifyAccess deployed 67890 [] (5, 12345) = Inl (Revert ''Invalid resource ID'') \<and>
   verifyAccess deployed 67890 [] (4, 67890) \<noteq> Inr (False, '''') \<and>
   verifyAccess deployed 67890 [] (5, 12345) \<noteq> Inr (False, '''')"
  by (simp add: verifyAccess_def deployed_def registerResource_def constructor_def)




text \<open>
  C6. Witness generation is claimed to refuse, by an explicit range check, every input
  outside the 32-bit domain instead of wrapping around. The template has no such check.
  The requirement \<open>p - 10\<close>, a field element far outside the domain, against permission 3
  yields a witness, and its \<open>accessGranted\<close> is 1 although 3 is below the requirement:
  the comparison wrapped around the field prime. A permission of 33 bits,
  \<open>2 ^ 32 + 4\<close>, against requirement 5 yields a witness as well.
\<close>

theorem DataAccess_wraps_out_of_range:
  "\<not> bn128_prime - 10 < 2 ^ 32 \<and> 3 < bn128_prime - 10 \<and>
   DataAccess 3 (bn128_prime - 10) 67890 =
     Inr \<lparr>w_userPermission = 3, w_requiredPermission = bn128_prime - 10,
          w_resourceId = 67890, w_accessGranted = 1, w_resourceIdCheck = 67890\<rparr> \<and>
   \<not> (2 ^ 32 + 4 :: nat) < 2 ^ 32 \<and>
   DataAccess (2 ^ 32 + 4) 5 67890 =
     Inr \<lparr>w_userPermission = 2 ^ 32 + 4, w_requiredPermission = 5,
          w_resourceId = 67890, w_accessGranted = 1, w_resourceIdCheck = 67890\<rparr>"
proof -
  have "\<not> bn128_prime - 10 < 2 ^ 32" and "3 < bn128_prime - 10"
    by (simp_all add: bn128_prime_def)
  moreover have "DataAccess 3 (bn128_prime - 10) 67890 =
     Inr \<lparr>w_userPermission = 3, w_requiredPermission = bn128_prime - 10,
          w_resourceId = 67890, w_accessGranted = 1, w_resourceIdCheck = 67890\<rparr>"
    by (simp add: DataAccess_eq fadd_def fsub_def bn128_prime_def)
  moreover have "DataAccess (2 ^ 32 + 4) 5 67890 =
     Inr \<lparr>w_userPermission = 2 ^ 32 + 4, w_requiredPermission = 5,
          w_resourceId = 67890, w_accessGranted = 1, w_resourceIdCheck = 67890\<rparr>"
    by (simp add: DataAccess_eq fadd_def fsub_def bn128_prime_def)
  ultimately show ?thesis by simp
qed

text \<open>
  C7. A resource identifier that no registration of the contract's history names is
  refused: from the freshly constructed contract, after any sequence of transactions none
  of which registers the identifier, \<open>verifyAccess\<close> for it reverts with
  "Resource not registered", whatever the proof and the public signals; it does not
  return a denied access.
\<close>

theorem verifyAccess_unregistered:
  assumes "\<forall>x \<in> set calls. \<not> registers resourceId x"
  shows "verifyAccess (run_calls (constructor a) calls) resourceId prf v =
           Inl (Revert ''Resource not registered'')"
proof -
  have "resourcePermissions (run_calls (constructor a) calls) resourceId
          = resourcePermissions (constructor a) resourceId"
    using assms by (rule run_calls_other)
  then have "resourcePermissions (run_calls (constructor a) calls) resourceId = 0"
    by (simp add: constructor_def)
  then show ?thesis by (rule verifyAccess_zero)
qed

theorem verifyAccess_unregistered_witness:
  "\<not> registers 12345 (RegisterResource 67890 5 ''secret'') \<and>
   verifyAccess (run_calls (constructor 0) [RegisterResource 67890 5 ''secret''])
     12345 [] (5, 12345) = Inl (Revert ''Resource not registered'')"
proof -
  have h: "\<forall>x \<in> set [RegisterResource 67890 5 ''secret'']. \<not> registers 12345 x"
    by simp
  show ?thesis
    using verifyAccess_unregistered [OF h, of 0 "[]" "(5, 12345)"] by simp
qed

text \<open>
  C9. The result of \<open>verifyAccess\<close> does not depend on the proof argument: for every
  contract state, resource identifier and public signals, any two byte strings given as
  the proof yield the same outcome (the same revert, or the same pair of granted flag and
  data).
\<close>

theorem verifyAccess_ignores_proof:
  "verifyAccess c resourceId p1 publicSignals = verifyAccess c resourceId p2 publicSignals"
  by (simp add: verifyAccess_def)

text \<open>
  C10. A resource registered with requirement 0 is accepted by \<open>registerResource\<close>,
  which emits \<open>ResourceRegistered\<close>, and from then on, until a transaction registers the
  identifier again, every \<open>verifyAccess\<close> for it reverts with "Resource not registered",
  whatever the proof and the public signals: the same outcome as for an identifier that
  was never registered.
\<close>

theorem zero_permission_resource_unregistered:
  assumes "\<forall>x \<in> set calls. \<not> registers resourceId x"
  shows "snd (registerResource c resourceId 0 data) = [ResourceRegistered resourceId 0] \<and>
         verifyAccess (run_calls (fst (registerResource c resourceId 0 data)) calls)
             resourceId prf v = Inl (Revert ''Resource not registered'') \<and>
         verifyAccess (run_calls (fst (registerResource c resourceId 0 data)) calls)
             resourceId prf v = verifyAccess (constructor a) resourceId prf v"
proof -
  have "resourcePermissions (run_calls (fst (registerResource c resourceId 0 data)) calls)
            resourceId
          = resourcePermissions (fst (registerResource c resourceId 0 data)) resourceId"
    using assms by (rule run_calls_other)
  then have "resourcePermissions (run_calls (fst (registerResource c resourceId 0 data)) calls)
               resourceId = 0"
    by (simp add: registerResource_def)
  then have "verifyAccess (run_calls (fst (registerResource c resourceId 0 data)) calls)
             resourceId prf v = Inl (Revert ''Resource not registered'')"
    by (rule verifyAccess_zero)
  moreover have "verifyAccess (constructor a) resourceId prf v
                   = Inl (Revert ''Resource not registered'')"
    by (rule verifyAccess_zero) (simp add: constructor_def)
  moreover have "snd (registerResource c resourceId 0 data) = [ResourceRegistered resourceId 0]"
    by (simp add: registerResource_def)
  ultimately show ?thesis by simp
qed

theorem zero_permission_resource_unregistered_witness:
  "snd (registerResource deployed 7 0 ''open'') = [ResourceRegistered 7 0] \<and>
   resourceData (fst (registerResource deployed 7 0 ''open'')) 7 = ''open'' \<and>
   verifyAccess (run_calls (fst (registerResource deployed 7 0 ''open''))
       [UpdateVerifier 1, RegisterResource 8 3 ''other'']) 7 [] (0, 7)
     = Inl (Revert ''Resource not registered'')"
proof -
  have h: "\<forall>x \<in> set [UpdateVerifier 1, RegisterResource 8 3 ''other'']. \<not> registers 7 x"
    by simp
  have d: "resourceData (fst (registerResource deployed 7 0 ''open'')) 7 = ''open''"
    by (simp add: registerResource_def)
  show ?thesis
    using zero_permission_resource_unregistered [OF h, of deployed "''open''" "[]" "(0, 7)" 0] d
    by simp
qed

end
